theory Spec2Isabelle
  imports Main "HOL-Library.Word"
begin

section \<open>The code execution engine of the assessment backend\<close>

text \<open>
  A shallow embedding of \<^verbatim>\<open>assessment_backend/code_executor.py\<close>: the class
  \<^verbatim>\<open>ExecutionResult\<close>, the language table of \<^verbatim>\<open>CodeExecutor\<close>, and the methods
  \<^verbatim>\<open>execute_code\<close>, \<^verbatim>\<open>_execute_in_temp_dir\<close>, \<^verbatim>\<open>_run_python\<close>, \<^verbatim>\<open>_run_java\<close>,
  \<^verbatim>\<open>_run_compiled\<close> and \<^verbatim>\<open>_run_javascript\<close>.

  Everything the operating system decides (whether the temporary directory can be made,
  whether a process can be spawned, what a child process prints and how it exits, whether
  the wait runs into its timeout, what the clock reads) is an input of the model, the
  record \<open>env\<close>. Everything the code does to the outside world is written to an explicit
  world state: the set of existing scratch directories and the sequence of calls made.
\<close>

subsection \<open>Text and bytes\<close>

text \<open>
  A Python \<^verbatim>\<open>str\<close> is a sequence of Unicode code points, a \<^verbatim>\<open>bytes\<close> object a
  sequence of octets. \<open>lit\<close> turns an ASCII literal of the source into a \<^verbatim>\<open>str\<close>.
\<close>

type_synonym pystr = "nat list"
type_synonym bytes = "8 word list"

definition lit :: "string \<Rightarrow> pystr" where
  "lit s = map of_char s"

definition blit :: "string \<Rightarrow> bytes" where
  "blit s = map of_char s"

subsection \<open>Exceptions\<close>

text \<open>
  An exception is its class and the text \<^verbatim>\<open>str(e)\<close>. \<open>CancelledError\<close> stands for the
  classes that derive from \<^verbatim>\<open>BaseException\<close> but not from \<^verbatim>\<open>Exception\<close>, which
  \<^verbatim>\<open>except Exception\<close> lets through.
\<close>

datatype exn_class =
  ValueError | KeyError | TypeError | OSError | UnicodeError | TimeoutError
  | OtherException | CancelledError

datatype exn = Exn (exn_cls: exn_class) (exn_str: pystr)

definition is_Exception :: "exn \<Rightarrow> bool" where
  "is_Exception e = (exn_cls e \<noteq> CancelledError)"

text \<open>
  The outcome of a call: it returns a value, raises, or never returns (a child process
  that is awaited without a timeout and does not exit).
\<close>

datatype 'a outcome = Returns 'a | Raises exn | Hangs

subsection \<open>Decoding UTF-8\<close>

text \<open>
  \<^verbatim>\<open>bytes.decode('utf-8', errors=...)\<close>. \<open>utf8_next\<close> reads one step at the head of
  the input, as the decoder of CPython does: either one code point made of \<open>n\<close> bytes, or an
  ill-formed range of \<open>k\<close> bytes (an invalid start byte, an invalid continuation byte after
  \<open>k\<close> good bytes, or a sequence cut off by the end of the data). The error handler decides
  what an ill-formed range becomes: \<open>Strict\<close> raises (the wording of its message is not
  modelled), \<open>Ignore\<close> drops the range, \<open>Replace\<close> puts U+FFFD in its place. The source
  passes \<^verbatim>\<open>errors='ignore'\<close> throughout.
\<close>

datatype errors = Strict | Ignore | Replace

datatype utf8_step = Char nat nat | Err nat

definition is_cont :: "8 word \<Rightarrow> bool" where
  "is_cont b = (0x80 \<le> b \<and> b < 0xC0)"

fun utf8_next :: "bytes \<Rightarrow> utf8_step" where
  "utf8_next [] = Err 0"
| "utf8_next (b0 # rest) =
    (if b0 < 0x80 then Char (unat b0) 1
     else if b0 < 0xC2 then Err 1
     else if b0 < 0xE0 then
       (case rest of
          [] \<Rightarrow> Err 1
        | b1 # _ \<Rightarrow>
            if \<not> is_cont b1 then Err 1
            else Char ((unat b0 - 0xC0) * 64 + (unat b1 - 0x80)) 2)
     else if b0 < 0xF0 then
       (case rest of
          [] \<Rightarrow> Err 1
        | b1 # rest1 \<Rightarrow>
            if \<not> is_cont b1 \<or> (if b1 < 0xA0 then b0 = 0xE0 else b0 = 0xED) then Err 1
            else (case rest1 of
                [] \<Rightarrow> Err 2
              | b2 # _ \<Rightarrow>
                  if \<not> is_cont b2 then Err 2
                  else Char ((unat b0 - 0xE0) * 4096 + (unat b1 - 0x80) * 64
                             + (unat b2 - 0x80)) 3))
     else if b0 < 0xF5 then
       (case rest of
          [] \<Rightarrow> Err 1
        | b1 # rest1 \<Rightarrow>
            if \<not> is_cont b1 \<or> (if b1 < 0x90 then b0 = 0xF0 else b0 = 0xF4) then Err 1
            else (case rest1 of
                [] \<Rightarrow> Err 2
              | b2 # rest2 \<Rightarrow>
                  if \<not> is_cont b2 then Err 2
                  else (case rest2 of
                      [] \<Rightarrow> Err 3
                    | b3 # _ \<Rightarrow>
                        if \<not> is_cont b3 then Err 3
                        else Char ((unat b0 - 0xF0) * 262144 + (unat b1 - 0x80) * 4096
                                   + (unat b2 - 0x80) * 64 + (unat b3 - 0x80)) 4)))
     else Err 1)"

lemma utf8_next_Char_pos: "utf8_next (b # bs) = Char c n \<Longrightarrow> 0 < n"
  by (auto split: if_splits list.splits)

lemma utf8_next_Err_pos: "utf8_next (b # bs) = Err k \<Longrightarrow> 0 < k"
  by (auto split: if_splits list.splits)

function utf8_decode :: "errors \<Rightarrow> bytes \<Rightarrow> exn + pystr" where
  "utf8_decode h [] = Inr []"
| "utf8_decode h (b # bs) =
    (case utf8_next (b # bs) of
       Char c n \<Rightarrow>
         (case utf8_decode h (drop n (b # bs)) of
            Inl e \<Rightarrow> Inl e
          | Inr s \<Rightarrow> Inr (c # s))
     | Err k \<Rightarrow>
         (case h of
            Strict \<Rightarrow> Inl (Exn UnicodeError (lit ''invalid utf-8''))
          | Ignore \<Rightarrow> utf8_decode h (drop k (b # bs))
          | Replace \<Rightarrow>
              (case utf8_decode h (drop k (b # bs)) of
                 Inl e \<Rightarrow> Inl e
               | Inr s \<Rightarrow> Inr (0xFFFD # s))))"
  by pat_completeness auto
termination
proof (relation "measure (\<lambda>(h, bs). length bs)")
  show "wf (measure (\<lambda>(h, bs). length bs))" by simp
next
  fix h :: errors and b :: "8 word" and bs c n
  assume "utf8_next (b # bs) = Char c n"
  then have "0 < n" by (rule utf8_next_Char_pos)
  then show "((h, drop n (b # bs)), (h, b # bs)) \<in> measure (\<lambda>(h, bs). length bs)"
    by simp
next
  fix h :: errors and b :: "8 word" and bs k
  assume "utf8_next (b # bs) = Err k" and "h = Ignore"
  then have "0 < k" by (simp add: utf8_next_Err_pos)
  then show "((h, drop k (b # bs)), (h, b # bs)) \<in> measure (\<lambda>(h, bs). length bs)"
    by simp
next
  fix h :: errors and b :: "8 word" and bs k
  assume "utf8_next (b # bs) = Err k" and "h = Replace"
  then have "0 < k" by (simp add: utf8_next_Err_pos)
  then show "((h, drop k (b # bs)), (h, b # bs)) \<in> measure (\<lambda>(h, bs). length bs)"
    by simp
qed

subsection \<open>Trimming\<close>

text \<open>
  \<^verbatim>\<open>str.strip()\<close> without an argument removes the leading and the trailing run of
  white space, the code points for which \<^verbatim>\<open>str.isspace\<close> holds.
\<close>

definition isspace :: "nat \<Rightarrow> bool" where
  "isspace c =
     ((0x09 \<le> c \<and> c \<le> 0x0D) \<or> (0x1C \<le> c \<and> c \<le> 0x20) \<or> c = 0x85 \<or> c = 0xA0
      \<or> c = 0x1680 \<or> (0x2000 \<le> c \<and> c \<le> 0x200A) \<or> c = 0x2028 \<or> c = 0x2029
      \<or> c = 0x202F \<or> c = 0x205F \<or> c = 0x3000)"

definition strip :: "pystr \<Rightarrow> pystr" where
  "strip s = rev (dropWhile isspace (rev (dropWhile isspace s)))"

subsection \<open>Values of the language table\<close>

text \<open>
  The table maps a language id to a dictionary of settings; a setting is a string, an
  integer or a list of strings. \<open>getitem\<close> is \<^verbatim>\<open>config[key]\<close>: a missing key raises
  \<^verbatim>\<open>KeyError\<close>, whose text is the \<^verbatim>\<open>repr\<close> of the key.
\<close>

datatype pyval = VStr pystr | VInt int | VList "pystr list"

type_synonym config = "(pystr \<times> pyval) list"

definition quoted :: "pystr \<Rightarrow> pystr" where
  "quoted s = [0x27] @ s @ [0x27]"

definition getitem :: "config \<Rightarrow> string \<Rightarrow> exn + pyval" where
  "getitem config key =
     (case map_of config (lit key) of
        None \<Rightarrow> Inl (Exn KeyError (quoted (lit key)))
      | Some v \<Rightarrow> Inr v)"

fun digits :: "nat \<Rightarrow> pystr" where
  "digits n = (if n < 10 then [48 + n] else digits (n div 10) @ [48 + n mod 10])"

declare digits.simps [simp del]

fun join_comma :: "pystr list \<Rightarrow> pystr" where
  "join_comma [] = []"
| "join_comma [s] = s"
| "join_comma (s # t # ss) = s @ lit '', '' @ join_comma (t # ss)"

text \<open>
  \<open>py_format\<close> is what an f-string puts for \<^verbatim>\<open>{v}\<close>. The \<^verbatim>\<open>repr\<close> of a list
  element is written for strings that need no escaping, which is all the table holds.
\<close>

fun py_format :: "pyval \<Rightarrow> pystr" where
  "py_format (VStr s) = s"
| "py_format (VInt i) = (if i < 0 then lit ''-'' @ digits (nat (- i)) else digits (nat i))"
| "py_format (VList ss) = lit ''['' @ join_comma (map quoted ss) @ lit '']''"

text \<open>
  \<open>unpack\<close> is \<^verbatim>\<open>*v\<close> in an argument list: a list gives its elements, a string its
  characters, an integer is not iterable.
\<close>

fun unpack :: "pyval \<Rightarrow> exn + pystr list" where
  "unpack (VList ss) = Inr ss"
| "unpack (VStr s) = Inr (map (\<lambda>c. [c]) s)"
| "unpack (VInt i) =
     Inl (Exn TypeError
       (lit ''asyncio.subprocess.create_subprocess_exec() argument after * must be an iterable, not int''))"

definition languages :: "(pystr \<times> config) list" where
  "languages =
    [(lit ''python'',
        [(lit ''name'', VStr (lit ''Python'')),
         (lit ''extension'', VStr (lit ''.py'')),
         (lit ''run_command'', VList [lit ''python3'']),
         (lit ''timeout'', VInt 30),
         (lit ''version_cmd'', VList [lit ''python3'', lit ''--version''])]),
     (lit ''java'',
        [(lit ''name'', VStr (lit ''Java'')),
         (lit ''extension'', VStr (lit ''.java'')),
         (lit ''compile_command'', VList [lit ''javac'']),
         (lit ''run_command'', VList [lit ''java'']),
         (lit ''timeout'', VInt 30),
         (lit ''version_cmd'', VList [lit ''java'', lit ''--version''])]),
     (lit ''cpp'',
        [(lit ''name'', VStr (lit ''C++'')),
         (lit ''extension'', VStr (lit ''.cpp'')),
         (lit ''compile_command'', VList [lit ''g++'', lit ''-o'', lit ''solution'']),
         (lit ''run_command'', VList [lit ''./solution'']),
         (lit ''timeout'', VInt 30),
         (lit ''version_cmd'', VList [lit ''g++'', lit ''--version''])]),
     (lit ''javascript'',
        [(lit ''name'', VStr (lit ''JavaScript'')),
         (lit ''extension'', VStr (lit ''.js'')),
         (lit ''run_command'', VList [lit ''node'']),
         (lit ''timeout'', VInt 30),
         (lit ''version_cmd'', VList [lit ''node'', lit ''--version''])])]"

subsection \<open>Paths\<close>

text \<open>
  A \<^verbatim>\<open>pathlib.Path\<close> is modelled by its string. \<open>path_join\<close> is \<^verbatim>\<open>dir / name\<close> for a
  plain file name, \<open>path_stem\<close> is \<^verbatim>\<open>Path.stem\<close>: the last component without its last
  suffix, where a dot at the start or at the end of the name starts no suffix.
\<close>

definition path_join :: "pystr \<Rightarrow> pystr \<Rightarrow> pystr" where
  "path_join d n = d @ lit ''/'' @ n"

definition path_name :: "pystr \<Rightarrow> pystr" where
  "path_name p = rev (takeWhile (\<lambda>c. c \<noteq> 0x2F) (rev p))"

definition path_stem :: "pystr \<Rightarrow> pystr" where
  "path_stem p =
     (let name = path_name p;
          tail = length (takeWhile (\<lambda>c. c \<noteq> 0x2E) (rev name))
      in if tail < length name \<and> 0 < tail \<and> 0 < length name - tail - 1
         then take (length name - tail - 1) name
         else name)"

subsection \<open>The result, the environment and the world\<close>

record ExecutionResult =
  stdout :: pystr
  stderr :: pystr
  exit_code :: int
  execution_time_ms :: int
  memory_usage_mb :: "int option"
  status :: pystr
  timeout :: bool

text \<open>
  What the operating system answers during one invocation:
  \<^item> \<open>mkdtemp\<close>: \<^verbatim>\<open>tempfile.TemporaryDirectory()\<close> fails or gives the name of the
    directory it made;
  \<^item> \<open>write_text\<close>: writing the source file fails or succeeds;
  \<^item> \<open>compile_spawn\<close>, \<open>run_spawn\<close>: \<^verbatim>\<open>create_subprocess_exec\<close> fails or starts the
    process;
  \<^item> \<open>compile_wait\<close>: \<^verbatim>\<open>compile_process.communicate()\<close>, awaited without a timeout,
    gives the compiler's output, error output and return code, or fails, or never ends;
  \<^item> \<open>run_wait\<close>: \<^verbatim>\<open>wait_for(process.communicate(input), timeout)\<close> gives the program's
    output, error output and return code, or raises: \<^verbatim>\<open>asyncio.TimeoutError\<close> when the
    timeout elapses first, another exception when the input cannot be encoded or sent;
  \<^item> \<open>killed_returncode\<close>: the return code read after \<^verbatim>\<open>kill()\<close> and \<^verbatim>\<open>wait()\<close>;
  \<^item> \<open>cleanup\<close>: leaving the \<^verbatim>\<open>with\<close> block removes the directory tree or fails.
    The source makes the \<^verbatim>\<open>TemporaryDirectory\<close> without \<^verbatim>\<open>ignore_cleanup_errors\<close>, so
    an error of the removal (a directory that is not empty because a process left behind
    still writes into it, for one) is raised from the end of the block;
  \<^item> \<open>t_enter\<close>, \<open>t_start\<close>, \<open>t_end\<close>: the clock, in milliseconds, when
    \<^verbatim>\<open>_execute_in_temp_dir\<close> starts, when the run method starts, and when the elapsed time
    is computed.
  Killing a process that is still running and waiting for a killed process are taken to
  succeed.
\<close>

record env =
  mkdtemp :: "exn + pystr"
  write_text :: "exn option"
  compile_spawn :: "exn option"
  compile_wait :: "(bytes \<times> bytes \<times> int) outcome"
  run_spawn :: "exn option"
  run_wait :: "exn + bytes \<times> bytes \<times> int"
  killed_returncode :: int
  cleanup :: "exn option"
  t_enter :: int
  t_start :: int
  t_end :: int

datatype proc = Compiler | Runner

datatype event =
  MkTemp pystr
  | WriteText pystr pystr
  | Spawn proc "pystr list" pystr
  | Communicate proc "pystr option" "pyval option"
  | Kill proc
  | Wait proc
  | RmTree pystr

record world =
  dirs :: "pystr set"
  trace :: "event list"

definition log :: "world \<Rightarrow> event \<Rightarrow> world" where
  "log w ev = w\<lparr>trace := trace w @ [ev]\<rparr>"

subsection \<open>The run phase\<close>

text \<open>
  The four run methods end with the same two blocks of code. \<open>await_run\<close> is the first:
  \<^verbatim>\<open>
  try:
      stdout, stderr = await asyncio.wait_for(
          process.communicate(input=stdin.encode('utf-8') if stdin else None),
          timeout=timeout)
      timeout_occurred = False
  except asyncio.TimeoutError:
      process.kill()
      await process.wait()
      timeout_occurred = True
      stdout, stderr = b"", b"Time Limit Exceeded"
  \<close>
  It gives the two byte strings, \<^verbatim>\<open>process.returncode\<close> and \<^verbatim>\<open>timeout_occurred\<close>, or
  the exception that the \<^verbatim>\<open>except\<close> clause does not catch. The event records the text
  whose encoding is sent, \<open>None\<close> for an empty \<^verbatim>\<open>stdin\<close>.
\<close>

definition await_run ::
  "env \<Rightarrow> world \<Rightarrow> pystr \<Rightarrow> pyval \<Rightarrow> (exn + bytes \<times> bytes \<times> int \<times> bool) \<times> world" where
  "await_run env w stdin tmo =
     (let w1 = log w (Communicate Runner (if stdin = [] then None else Some stdin) (Some tmo))
      in case run_wait env of
           Inr (out, err, rc) \<Rightarrow> (Inr (out, err, rc, False), w1)
         | Inl e \<Rightarrow>
             if exn_cls e = TimeoutError
             then (Inr ([], blit ''Time Limit Exceeded'', killed_returncode env, True),
                   log (log w1 (Kill Runner)) (Wait Runner))
             else (Inl e, w1))"

text \<open>
  \<open>run_result\<close> is the second block:
  \<^verbatim>\<open>
  execution_time = int((time.time() - start_time) * 1000)
  status = "Accepted"
  if timeout_occurred:
      status = "Time Limit Exceeded"
  elif process.returncode != 0:
      status = "Runtime Error"
  return ExecutionResult(
      stdout=stdout.decode('utf-8', errors='ignore').strip(),
      stderr=stderr.decode('utf-8', errors='ignore').strip(),
      exit_code=process.returncode or 0,
      execution_time_ms=execution_time,
      status=status,
      timeout=timeout_occurred)
  \<close>
\<close>

definition run_result :: "env \<Rightarrow> bytes \<times> bytes \<times> int \<times> bool \<Rightarrow> ExecutionResult outcome" where
  "run_result env r =
     (case r of (out, err, rc, timeout_occurred) \<Rightarrow>
        let execution_time = t_end env - t_start env;
            st = (if timeout_occurred then lit ''Time Limit Exceeded''
                  else if rc \<noteq> 0 then lit ''Runtime Error''
                  else lit ''Accepted'')
        in case utf8_decode Ignore out of
             Inl e \<Rightarrow> Raises e
           | Inr so \<Rightarrow>
               (case utf8_decode Ignore err of
                  Inl e \<Rightarrow> Raises e
                | Inr se \<Rightarrow>
                    Returns \<lparr>stdout = strip so, stderr = strip se,
                             exit_code = (if rc \<noteq> 0 then rc else 0),
                             execution_time_ms = execution_time,
                             memory_usage_mb = None,
                             status = st, timeout = timeout_occurred\<rparr>))"

text \<open>
  The run phase proper: spawn the program with the given argument list in \<open>cwd\<close>, then the
  two blocks above.
\<close>

definition run_phase ::
  "env \<Rightarrow> world \<Rightarrow> pystr list \<Rightarrow> pystr \<Rightarrow> pystr \<Rightarrow> pyval
     \<Rightarrow> ExecutionResult outcome \<times> world" where
  "run_phase env w argv cwd stdin tmo =
     (let w1 = log w (Spawn Runner argv cwd)
      in case run_spawn env of
           Some e \<Rightarrow> (Raises e, w1)
         | None \<Rightarrow>
             (case await_run env w1 stdin tmo of
                (Inl e, w2) \<Rightarrow> (Raises e, w2)
              | (Inr r, w2) \<Rightarrow> (run_result env r, w2)))"

text \<open>
  The result of a failed compilation, in \<^verbatim>\<open>_run_java\<close> and \<^verbatim>\<open>_run_compiled\<close>:
  \<^verbatim>\<open>
  return ExecutionResult(
      stdout="",
      stderr=compile_stderr.decode('utf-8', errors='ignore'),
      exit_code=compile_process.returncode,
      execution_time_ms=execution_time,
      status="Compilation Error")
  \<close>
\<close>

definition compile_error_result :: "env \<Rightarrow> bytes \<Rightarrow> int \<Rightarrow> ExecutionResult outcome" where
  "compile_error_result env compile_stderr returncode =
     (case utf8_decode Ignore compile_stderr of
        Inl e \<Rightarrow> Raises e
      | Inr se \<Rightarrow>
          Returns \<lparr>stdout = [], stderr = se, exit_code = returncode,
                   execution_time_ms = t_end env - t_start env,
                   memory_usage_mb = None,
                   status = lit ''Compilation Error'', timeout = False\<rparr>)"

text \<open>
  The compile phase: spawn the compiler, wait for it without a timeout. \<open>Inr ()\<close> says
  that it exited with 0 and the run phase follows; \<open>Inl\<close> carries what the method returns
  or raises instead.
\<close>

definition compile_phase ::
  "env \<Rightarrow> world \<Rightarrow> pystr list \<Rightarrow> pystr \<Rightarrow> (ExecutionResult outcome + unit) \<times> world" where
  "compile_phase env w argv cwd =
     (let w1 = log w (Spawn Compiler argv cwd)
      in case compile_spawn env of
           Some e \<Rightarrow> (Inl (Raises e), w1)
         | None \<Rightarrow>
             (let w2 = log w1 (Communicate Compiler None None)
              in case compile_wait env of
                   Hangs \<Rightarrow> (Inl Hangs, w2)
                 | Raises e \<Rightarrow> (Inl (Raises e), w2)
                 | Returns (compile_stdout, compile_stderr, returncode) \<Rightarrow>
                     if returncode \<noteq> 0
                     then (Inl (compile_error_result env compile_stderr returncode), w2)
                     else (Inr (), w2)))"

subsection \<open>The run methods\<close>

definition run_python ::
  "env \<Rightarrow> world \<Rightarrow> pystr \<Rightarrow> pystr \<Rightarrow> pyval \<Rightarrow> pystr \<Rightarrow> ExecutionResult outcome \<times> world" where
  "run_python env w source_file stdin tmo cwd =
     run_phase env w [lit ''python3'', source_file] cwd stdin tmo"

definition run_java ::
  "env \<Rightarrow> world \<Rightarrow> pystr \<Rightarrow> pystr \<Rightarrow> pyval \<Rightarrow> pystr \<Rightarrow> ExecutionResult outcome \<times> world" where
  "run_java env w source_file stdin tmo cwd =
     (case compile_phase env w [lit ''javac'', source_file] cwd of
        (Inl res, w1) \<Rightarrow> (res, w1)
      | (Inr _, w1) \<Rightarrow>
          (let class_name = path_stem source_file
           in run_phase env w1 [lit ''java'', lit ''-cp'', cwd, class_name] cwd stdin tmo))"

definition run_compiled ::
  "env \<Rightarrow> world \<Rightarrow> pystr \<Rightarrow> pystr \<Rightarrow> pyval \<Rightarrow> pystr \<Rightarrow> config
     \<Rightarrow> ExecutionResult outcome \<times> world" where
  "run_compiled env w source_file stdin tmo cwd config =
     (case getitem config ''compile_command'' of
        Inl e \<Rightarrow> (Raises e, w)
      | Inr cc \<Rightarrow>
          (case unpack cc of
             Inl e \<Rightarrow> (Raises e, w)
           | Inr compile_command \<Rightarrow>
               (case compile_phase env w (compile_command @ [source_file]) cwd of
                  (Inl res, w1) \<Rightarrow> (res, w1)
                | (Inr _, w1) \<Rightarrow>
                    (case getitem config ''run_command'' of
                       Inl e \<Rightarrow> (Raises e, w1)
                     | Inr rc \<Rightarrow>
                         (case unpack rc of
                            Inl e \<Rightarrow> (Raises e, w1)
                          | Inr run_command \<Rightarrow>
                              run_phase env w1 run_command cwd stdin tmo)))))"

definition run_javascript ::
  "env \<Rightarrow> world \<Rightarrow> pystr \<Rightarrow> pystr \<Rightarrow> pyval \<Rightarrow> pystr \<Rightarrow> ExecutionResult outcome \<times> world" where
  "run_javascript env w source_file stdin tmo cwd =
     run_phase env w [lit ''node'', source_file] cwd stdin tmo"

subsection \<open>The coordinator\<close>

text \<open>
  The result that both \<^verbatim>\<open>except Exception as e\<close> handlers build:
  \<^verbatim>\<open>ExecutionResult(stdout="", stderr=str(e), exit_code=1,
  execution_time_ms=..., status="Runtime Error")\<close>.
\<close>

definition error_result :: "exn \<Rightarrow> int \<Rightarrow> ExecutionResult" where
  "error_result e execution_time =
     \<lparr>stdout = [], stderr = exn_str e, exit_code = 1,
      execution_time_ms = execution_time, memory_usage_mb = None,
      status = lit ''Runtime Error'', timeout = False\<rparr>"

text \<open>
  The \<^verbatim>\<open>if\<close>/\<^verbatim>\<open>elif\<close> chain of \<^verbatim>\<open>_execute_in_temp_dir\<close> picks one of five branches
  by comparing the language id with string literals.
\<close>

datatype branch = RunPython | RunJava | RunCompiled | RunJavascript | NotImplemented

definition select_branch :: "pystr \<Rightarrow> branch" where
  "select_branch language =
     (if language = lit ''python'' then RunPython
      else if language = lit ''java'' then RunJava
      else if language \<in> set [lit ''cpp'', lit ''c''] then RunCompiled
      else if language = lit ''javascript'' then RunJavascript
      else NotImplemented)"

definition execute_in_temp_dir ::
  "env \<Rightarrow> world \<Rightarrow> pystr \<Rightarrow> config \<Rightarrow> pystr \<Rightarrow> pystr \<Rightarrow> pyval \<Rightarrow> pystr
     \<Rightarrow> ExecutionResult outcome \<times> world" where
  "execute_in_temp_dir env w temp_dir config source_code stdin tmo language =
     (case getitem config ''extension'' of
        Inl e \<Rightarrow> (Raises e, w)
      | Inr ext \<Rightarrow>
          (let source_file = path_join temp_dir (lit ''Solution'' @ py_format ext);
               w1 = log w (WriteText source_file source_code)
           in case write_text env of
                Some e \<Rightarrow> (Raises e, w1)
              | None \<Rightarrow>
                  (case (case select_branch language of
                           RunPython \<Rightarrow> run_python env w1 source_file stdin tmo temp_dir
                         | RunJava \<Rightarrow> run_java env w1 source_file stdin tmo temp_dir
                         | RunCompiled \<Rightarrow>
                             run_compiled env w1 source_file stdin tmo temp_dir config
                         | RunJavascript \<Rightarrow>
                             run_javascript env w1 source_file stdin tmo temp_dir
                         | NotImplemented \<Rightarrow>
                             (Raises (Exn ValueError
                                (lit ''Language '' @ language @ lit '' not implemented'')), w1))
                   of
                     (Raises e, w2) \<Rightarrow>
                       if is_Exception e
                       then (Returns (error_result e (t_end env - t_enter env)), w2)
                       else (Raises e, w2)
                   | (res, w2) \<Rightarrow> (res, w2))))"

text \<open>
  \<^verbatim>\<open>execute_code\<close>. The parameter \<^verbatim>\<open>timeout\<close> is \<open>None\<close> when the caller leaves it
  out. The \<^verbatim>\<open>with tempfile.TemporaryDirectory()\<close> block makes the directory before the
  \<^verbatim>\<open>try\<close>; when the block is left by a return or by an exception, the removal of the
  directory is attempted. The end of the block stands outside the \<^verbatim>\<open>try\<close> as well: when
  the removal fails, its exception takes the place of the result or of the exception that
  left the block, and the directory stays. A call that never returns never leaves the block.
\<close>

definition execute_code ::
  "env \<Rightarrow> world \<Rightarrow> pystr \<Rightarrow> pystr \<Rightarrow> pystr \<Rightarrow> int option
     \<Rightarrow> ExecutionResult outcome \<times> world" where
  "execute_code env w language source_code stdin tmo_arg =
     (case map_of languages language of
        None \<Rightarrow> (Raises (Exn ValueError (lit ''Unsupported language: '' @ language)), w)
      | Some config \<Rightarrow>
          (case (case tmo_arg of
                   Some t \<Rightarrow> Inr (VInt t)
                 | None \<Rightarrow> getitem config ''default_timeout'') of
             Inl e \<Rightarrow> (Raises e, w)
           | Inr tmo \<Rightarrow>
               (case mkdtemp env of
                  Inl e \<Rightarrow> (Raises e, w)
                | Inr temp_dir \<Rightarrow>
                    (let w1 = log (w\<lparr>dirs := insert temp_dir (dirs w)\<rparr>) (MkTemp temp_dir)
                     in case (case execute_in_temp_dir env w1 temp_dir config source_code
                                     stdin tmo language of
                                (Raises e, w2) \<Rightarrow>
                                  if is_Exception e
                                  then (Returns (error_result e 0), w2)
                                  else (Raises e, w2)
                              | (res, w2) \<Rightarrow> (res, w2))
                        of
                          (Hangs, w3) \<Rightarrow> (Hangs, w3)
                        | (res, w3) \<Rightarrow>
                            (case cleanup env of
                               None \<Rightarrow>
                                 (res, log (w3\<lparr>dirs := dirs w3 - {temp_dir}\<rparr>)
                                           (RmTree temp_dir))
                             | Some e \<Rightarrow> (Raises e, log w3 (RmTree temp_dir)))))))"

subsection \<open>Conditions of an invocation\<close>

text \<open>
  \<open>registered\<close> is the test \<^verbatim>\<open>language in self.languages\<close>. The other predicates name
  the situations the properties below are about, in terms of what the environment answers:
  the compiler ran and exited with 0; the run phase is reached, that is, the workspace was
  made, the source was written, the compile phase (if the language has one) succeeded and
  the program was spawned.
\<close>

definition registered :: "pystr \<Rightarrow> bool" where
  "registered language = (map_of languages language \<noteq> None)"

definition compiled_language :: "pystr \<Rightarrow> bool" where
  "compiled_language language = (language = lit ''java'' \<or> language = lit ''cpp'')"

definition compile_succeeds :: "env \<Rightarrow> bool" where
  "compile_succeeds env =
     (compile_spawn env = None \<and>
      (case compile_wait env of Returns (co, ce, rc) \<Rightarrow> rc = 0 | _ \<Rightarrow> False))"

definition run_phase_reached :: "env \<Rightarrow> pystr \<Rightarrow> bool" where
  "run_phase_reached env language =
     (registered language \<and>
      (case mkdtemp env of Inr d \<Rightarrow> True | Inl e \<Rightarrow> False) \<and>
      write_text env = None \<and>
      (compiled_language language \<longrightarrow> compile_succeeds env) \<and>
      run_spawn env = None)"

text \<open>The text that decoding with \<^verbatim>\<open>errors='ignore'\<close> yields.\<close>

definition decoded :: "bytes \<Rightarrow> pystr" where
  "decoded bs = (case utf8_decode Ignore bs of Inr s \<Rightarrow> s | Inl e \<Rightarrow> [])"

text \<open>A text is trimmed when \<^verbatim>\<open>strip\<close> has nothing left to remove.\<close>

definition trimmed :: "pystr \<Rightarrow> bool" where
  "trimmed s = (s = [] \<or> (\<not> isspace (hd s) \<and> \<not> isspace (last s)))"

text \<open>
  The environment raises only exceptions that derive from \<^verbatim>\<open>Exception\<close>, the ones an
  \<^verbatim>\<open>except Exception\<close> clause catches.
\<close>

definition raises_only_Exception :: "env \<Rightarrow> bool" where
  "raises_only_Exception env =
     ((case write_text env of Some e \<Rightarrow> is_Exception e | None \<Rightarrow> True) \<and>
      (case compile_spawn env of Some e \<Rightarrow> is_Exception e | None \<Rightarrow> True) \<and>
      (case compile_wait env of Raises e \<Rightarrow> is_Exception e | _ \<Rightarrow> True) \<and>
      (case run_spawn env of Some e \<Rightarrow> is_Exception e | None \<Rightarrow> True) \<and>
      (case run_wait env of Inl e \<Rightarrow> is_Exception e | Inr x \<Rightarrow> True))"

text \<open>
  A result is the conversion of the exception \<open>e\<close>: status \<^verbatim>\<open>"Runtime Error"\<close>, the text
  of \<open>e\<close> in \<^verbatim>\<open>stderr\<close>, nothing in \<^verbatim>\<open>stdout\<close>, exit code 1.
\<close>

definition converted :: "exn \<Rightarrow> ExecutionResult \<Rightarrow> bool" where
  "converted e r =
     (status r = lit ''Runtime Error'' \<and> stderr r = exn_str e \<and> stdout r = []
      \<and> exit_code r = 1 \<and> \<not> timeout r)"


subsection \<open>Example environments\<close>

text \<open>
  An environment in which everything works, the removal of the workspace included, and the
  program prints a line; and the world before the first invocation.
\<close>

definition env0 :: env where
  "env0 =
     \<lparr>mkdtemp = Inr (lit ''/tmp/tmpk3x9''), write_text = None,
      compile_spawn = None, compile_wait = Returns ([], [], 0),
      run_spawn = None, run_wait = Inr (blit ''hello'' @ [0x0A], [], 0),
      killed_returncode = - 9, cleanup = None, t_enter = 0, t_start = 1, t_end = 40\<rparr>"

definition world0 :: world where
  "world0 = \<lparr>dirs = {}, trace = []\<rparr>"

section \<open>Properties\<close>

subsection \<open>Auxiliary facts\<close>

lemma lit_eq_iff [simp]: "lit a = lit b \<longleftrightarrow> a = b"
  unfolding lit_def by (simp add: inj_on_def)

lemma registered_iff:
  "registered l \<longleftrightarrow>
     l = lit ''python'' \<or> l = lit ''java'' \<or> l = lit ''cpp'' \<or> l = lit ''javascript''"
  by (auto simp: registered_def languages_def split: if_splits)

lemma no_default_timeout:
  "map_of languages l = Some c \<Longrightarrow>
     getitem c ''default_timeout'' = Inl (Exn KeyError (quoted (lit ''default_timeout'')))"
  by (auto simp: languages_def getitem_def split: if_splits)

lemma utf8_decode_Ignore_total: "\<exists>s. utf8_decode Ignore bs = Inr s"
proof (induction "Ignore" bs rule: utf8_decode.induct)
  case 1
  show ?case by simp
next
  case (2 b bs)
  show ?case
  proof (cases "utf8_next (b # bs)")
    case (Char c n)
    with 2(1) obtain s where "utf8_decode Ignore (drop n (b # bs)) = Inr s" by blast
    with Char show ?thesis by (simp del: utf8_next.simps)
  next
    case (Err k)
    with 2(2) obtain s where "utf8_decode Ignore (drop k (b # bs)) = Inr s" by blast
    with Err show ?thesis by (simp del: utf8_next.simps)
  qed
qed

lemma utf8_decode_Ignore: "utf8_decode Ignore bs = Inr (decoded bs)"
  using utf8_decode_Ignore_total [of bs] by (auto simp: decoded_def)

lemma strict_agrees: "utf8_decode Strict bs = Inr s \<Longrightarrow> utf8_decode h bs = Inr s"
proof (induction Strict bs arbitrary: s rule: utf8_decode.induct)
  case 1
  then show ?case by simp
next
  case (2 b bs)
  show ?case
  proof (cases "utf8_next (b # bs)")
    case (Char c n)
    with 2(4) obtain s' where s': "utf8_decode Strict (drop n (b # bs)) = Inr s'" "s = c # s'"
      by (auto simp del: utf8_next.simps split: sum.splits)
    from 2(1)[OF Char s'(1)] Char s'(2) show ?thesis by (simp del: utf8_next.simps)
  next
    case (Err k)
    with 2(4) show ?thesis by (simp del: utf8_next.simps)
  qed
qed

lemma ignore_replace:
  "utf8_decode Replace bs = Inr s' \<Longrightarrow>
     filter (\<lambda>c. c \<noteq> 0xFFFD) (decoded bs) = filter (\<lambda>c. c \<noteq> 0xFFFD) s'"
proof (induction Replace bs arbitrary: s' rule: utf8_decode.induct)
  case 1
  then show ?case by (simp add: decoded_def)
next
  case (2 b bs)
  show ?case
  proof (cases "utf8_next (b # bs)")
    case (Char c n)
    with 2(4) obtain t where t: "utf8_decode Replace (drop n (b # bs)) = Inr t" "s' = c # t"
      by (auto simp del: utf8_next.simps split: sum.splits)
    have "utf8_decode Ignore (b # bs) = Inr (c # decoded (drop n (b # bs)))"
      using Char by (subst utf8_decode.simps) (simp add: utf8_decode_Ignore del: utf8_next.simps)
    then have "decoded (b # bs) = c # decoded (drop n (b # bs))"
      by (simp add: decoded_def)
    with 2(1)[OF Char t(1)] t(2) show ?thesis by simp
  next
    case (Err k)
    with 2(4) obtain t where t: "utf8_decode Replace (drop k (b # bs)) = Inr t" "s' = 0xFFFD # t"
      by (auto simp del: utf8_next.simps split: sum.splits)
    have "decoded (b # bs) = decoded (drop k (b # bs))"
      using Err by (simp add: decoded_def del: utf8_next.simps)
    with 2(3)[OF Err _ t(1)] t(2) show ?thesis by simp
  qed
qed

lemma run_result_eq:
  "run_result env (out, err, rc, tmo) =
     Returns \<lparr>stdout = strip (decoded out), stderr = strip (decoded err),
              exit_code = rc, execution_time_ms = t_end env - t_start env,
              memory_usage_mb = None,
              status = (if tmo then lit ''Time Limit Exceeded''
                        else if rc \<noteq> 0 then lit ''Runtime Error'' else lit ''Accepted''),
              timeout = tmo\<rparr>"
  by (simp add: run_result_def utf8_decode_Ignore)

lemma compile_error_result_eq:
  "compile_error_result env ce rc =
     Returns \<lparr>stdout = [], stderr = decoded ce, exit_code = rc,
              execution_time_ms = t_end env - t_start env, memory_usage_mb = None,
              status = lit ''Compilation Error'', timeout = False\<rparr>"
  by (simp add: compile_error_result_def utf8_decode_Ignore)

lemmas exec_defs = execute_code_def execute_in_temp_dir_def run_python_def run_java_def
  run_compiled_def run_javascript_def run_phase_def compile_phase_def await_run_def
  select_branch_def getitem_def languages_def log_def

lemma exec_compile_failure:
  assumes "compiled_language language"
    and "mkdtemp env = Inr d" and "write_text env = None" and "compile_spawn env = None"
    and "compile_wait env = Returns (co, ce, rc)" and "rc \<noteq> 0"
    and "cleanup env = None"
  shows "fst (execute_code env w language src stdin (Some t)) =
     Returns \<lparr>stdout = [], stderr = decoded ce, exit_code = rc,
              execution_time_ms = t_end env - t_start env, memory_usage_mb = None,
              status = lit ''Compilation Error'', timeout = False\<rparr>"
    and "Spawn Runner argv cwd \<notin>
           set (drop (length (trace w))
                  (trace (snd (execute_code env w language src stdin (Some t)))))"
  using assms
  by (auto simp: compiled_language_def exec_defs compile_error_result_eq Let_def)

lemma exec_run_phase:
  assumes "run_phase_reached env language" and cl: "cleanup env = None"
  shows "fst (execute_code env w language src stdin (Some t)) =
    (case run_wait env of
       Inr (out, err, rc) \<Rightarrow> run_result env (out, err, rc, False)
     | Inl e \<Rightarrow>
         if exn_cls e = TimeoutError
         then run_result env ([], blit ''Time Limit Exceeded'', killed_returncode env, True)
         else if is_Exception e then Returns (error_result e (t_end env - t_enter env))
         else Raises e)"
proof -
  from assms(1) obtain d where d: "mkdtemp env = Inr d"
    by (auto simp: run_phase_reached_def split: sum.splits)
  from assms(1) have w: "write_text env = None" and s: "run_spawn env = None"
    by (simp_all add: run_phase_reached_def)
  from assms(1) have r: "registered language" by (simp add: run_phase_reached_def)
  from assms(1) have c: "compiled_language language \<Longrightarrow> compile_spawn env = None"
     "compiled_language language \<Longrightarrow> \<exists>co ce. compile_wait env = Returns (co, ce, 0)"
    by (auto simp: run_phase_reached_def compile_succeeds_def split: outcome.splits)
  from r consider "language = lit ''python''" | "language = lit ''java''"
    | "language = lit ''cpp''" | "language = lit ''javascript''"
    by (auto simp: registered_iff)
  then show ?thesis
  proof cases
    case 1
    with d w s cl show ?thesis
      by (simp add: exec_defs Let_def run_result_eq split: sum.splits)
  next
    case 2
    with c obtain co ce where "compile_spawn env = None" "compile_wait env = Returns (co, ce, 0)"
      by (auto simp: compiled_language_def)
    with 2 d w s cl show ?thesis
      by (simp add: exec_defs Let_def run_result_eq split: sum.splits)
  next
    case 3
    with c obtain co ce where "compile_spawn env = None" "compile_wait env = Returns (co, ce, 0)"
      by (auto simp: compiled_language_def)
    with 3 d w s cl show ?thesis
      by (simp add: exec_defs Let_def run_result_eq split: sum.splits)
  next
    case 4
    with d w s cl show ?thesis
      by (simp add: exec_defs Let_def run_result_eq split: sum.splits)
  qed
qed





lemma strip_prefix: "\<exists>ys. dropWhile isspace s = strip s @ ys"
proof -
  have "rev (dropWhile isspace s)
          = takeWhile isspace (rev (dropWhile isspace s)) @ dropWhile isspace (rev (dropWhile isspace s))"
    by simp
  then have "dropWhile isspace s
          = rev (dropWhile isspace (rev (dropWhile isspace s))) @ rev (takeWhile isspace (rev (dropWhile isspace s)))"
    by (metis rev_append rev_rev_ident)
  then show ?thesis by (auto simp: strip_def)
qed

lemma trimmed_strip: "trimmed (strip s)"
proof (cases "strip s = []")
  case True
  then show ?thesis by (simp add: trimmed_def)
next
  case False
  obtain ys where ys: "dropWhile isspace s = strip s @ ys" using strip_prefix by blast
  with False have "hd (strip s) = hd (dropWhile isspace s)" by simp
  moreover from ys False have "dropWhile isspace s \<noteq> []" by auto
  ultimately have h: "\<not> isspace (hd (strip s))" by (simp add: hd_dropWhile)
  from False have ne: "dropWhile isspace (rev (dropWhile isspace s)) \<noteq> []"
    by (simp add: strip_def)
  have "last (strip s) = hd (dropWhile isspace (rev (dropWhile isspace s)))"
    using ne by (simp add: strip_def last_rev)
  with ne have "\<not> isspace (last (strip s))" by (simp add: hd_dropWhile)
  with h show ?thesis by (simp add: trimmed_def)
qed

lemma strip_trimmed: "trimmed s \<Longrightarrow> strip s = s"
proof (cases "s = []")
  case True
  then show ?thesis by (simp add: strip_def)
next
  case False
  assume "trimmed s"
  with False have h: "\<not> isspace (hd s)" and l: "\<not> isspace (last s)"
    by (simp_all add: trimmed_def)
  from False h have 1: "dropWhile isspace s = s" by (cases s) simp_all
  from False l have 2: "dropWhile isspace (rev s) = rev s"
    by (cases "rev s") (simp_all add: last_rev [symmetric] hd_rev)
  show ?thesis by (simp add: strip_def 1 2)
qed













lemma converted_error_result: "converted e (error_result e x)"
  by (simp add: converted_def error_result_def)

lemma exec_interpreted:
  assumes "language = lit ''python'' \<or> language = lit ''javascript''"
    and "mkdtemp env = Inr d" and cl: "cleanup env = None"
  shows "fst (execute_code env w language src stdin (Some t)) =
    (case write_text env of
       Some e \<Rightarrow> if is_Exception e then Returns (error_result e 0) else Raises e
     | None \<Rightarrow>
        (case run_spawn env of
           Some e \<Rightarrow> if is_Exception e then Returns (error_result e (t_end env - t_enter env))
                     else Raises e
         | None \<Rightarrow>
            (case run_wait env of
               Inr (out, err, rc) \<Rightarrow> run_result env (out, err, rc, False)
             | Inl e \<Rightarrow>
                 if exn_cls e = TimeoutError
                 then run_result env ([], blit ''Time Limit Exceeded'', killed_returncode env, True)
                 else if is_Exception e then Returns (error_result e (t_end env - t_enter env))
                 else Raises e)))"
proof -
  have "?thesis" if "language = lit ''python''"
    using that assms(2) cl
    by (cases "write_text env"; cases "run_spawn env"; cases "run_wait env")
       (simp_all add: exec_defs Let_def run_result_eq split: prod.splits)
  moreover have "?thesis" if "language = lit ''javascript''"
    using that assms(2) cl
    by (cases "write_text env"; cases "run_spawn env"; cases "run_wait env")
       (simp_all add: exec_defs Let_def run_result_eq split: prod.splits)
  ultimately show ?thesis using assms(1) by blast
qed

lemma exec_compiled_early:
  assumes "language = lit ''java'' \<or> language = lit ''cpp''"
    and "mkdtemp env = Inr d" and "cleanup env = None"
  shows "write_text env = Some e \<Longrightarrow>
           fst (execute_code env w language src stdin (Some t)) =
             (if is_Exception e then Returns (error_result e 0) else Raises e)"
    and "write_text env = None \<Longrightarrow> compile_spawn env = Some e \<Longrightarrow>
           fst (execute_code env w language src stdin (Some t)) =
             (if is_Exception e then Returns (error_result e (t_end env - t_enter env))
              else Raises e)"
    and "write_text env = None \<Longrightarrow> compile_spawn env = None \<Longrightarrow> compile_wait env = Raises e \<Longrightarrow>
           fst (execute_code env w language src stdin (Some t)) =
             (if is_Exception e then Returns (error_result e (t_end env - t_enter env))
              else Raises e)"
    and "write_text env = None \<Longrightarrow> compile_spawn env = None \<Longrightarrow> compile_wait env = Hangs \<Longrightarrow>
           fst (execute_code env w language src stdin (Some t)) = Hangs"
    and "write_text env = None \<Longrightarrow> compile_spawn env = None \<Longrightarrow>
         compile_wait env = Returns (co, ce, 0) \<Longrightarrow> run_spawn env = Some e \<Longrightarrow>
           fst (execute_code env w language src stdin (Some t)) =
             (if is_Exception e then Returns (error_result e (t_end env - t_enter env))
              else Raises e)"
  using assms
  by (auto simp: exec_defs Let_def)

lemmas cond_defs = run_phase_reached_def registered_iff compiled_language_def
  compile_succeeds_def env0_def

subsection \<open>Failures inside the coordinator\<close>

text \<open>
  Claim C1 says that, for a registered language, \<^verbatim>\<open>execute_code\<close> never raises and that
  every failure, a failure to make the workspace included, becomes a result with status
  \<^verbatim>\<open>"Runtime Error"\<close>. The directory is made by the \<^verbatim>\<open>with\<close> statement, which stands
  outside the \<^verbatim>\<open>try\<close>: when \<^verbatim>\<open>tempfile.TemporaryDirectory()\<close> fails, the exception
  leaves \<^verbatim>\<open>execute_code\<close>. Here the language is registered, the caller gives the timeout,
  and the call raises \<^verbatim>\<open>OSError\<close>.
\<close>

theorem execute_code_raises_on_mkdtemp_failure:
  "registered (lit ''python'')
   \<and> execute_code (env0\<lparr>mkdtemp := Inl (Exn OSError (lit ''No space left on device''))\<rparr>)
        world0 (lit ''python'') (lit ''print(1)'') [] (Some 5)
      = (Raises (Exn OSError (lit ''No space left on device'')), world0)"
  by (simp add: registered_iff env0_def execute_code_def languages_def)

text \<open>
  Claim C1, as the code has it. For a registered language and a timeout given by the
  caller, once the workspace directory is made, the call returns a result, provided that
  the awaited compiler comes to an end, that what the environment raises derives from
  \<^verbatim>\<open>Exception\<close>, and that the removal of the workspace at the end of the \<^verbatim>\<open>with\<close>
  block succeeds (a failure of the removal leaves the call like a failure of the
  creation does, see claim C9). Every failure inside the workspace is turned into a result with status
  \<^verbatim>\<open>"Runtime Error"\<close>, exit code 1, an empty \<^verbatim>\<open>stdout\<close> and the text of the exception
  in \<^verbatim>\<open>stderr\<close>: a failure to write the source file, a failure to spawn the compiler or
  the program, an exception while waiting for the compiler, and an exception other than
  the timeout while waiting for the program.
\<close>

theorem execute_code_absorbs_failures:
  assumes "registered language" and "mkdtemp env = Inr d"
    and "raises_only_Exception env"
    and "compiled_language language \<longrightarrow> compile_wait env \<noteq> Hangs"
    and cl: "cleanup env = None"
  shows "\<exists>r. fst (execute_code env w language source_code stdin (Some t)) = Returns r
     \<and> (\<forall>e. write_text env = Some e \<longrightarrow> converted e r)
     \<and> (\<forall>e. write_text env = None \<and> compiled_language language \<and> compile_spawn env = Some e
            \<longrightarrow> converted e r)
     \<and> (\<forall>e. write_text env = None \<and> compiled_language language \<and> compile_spawn env = None
             \<and> compile_wait env = Raises e \<longrightarrow> converted e r)
     \<and> (\<forall>e. write_text env = None \<and> (compiled_language language \<longrightarrow> compile_succeeds env)
             \<and> run_spawn env = Some e \<longrightarrow> converted e r)
     \<and> (\<forall>e. run_phase_reached env language \<and> run_wait env = Inl e \<and> exn_cls e \<noteq> TimeoutError
            \<longrightarrow> converted e r)"
proof (cases "compiled_language language")
  case False
  with assms(1) have l: "language = lit ''python'' \<or> language = lit ''javascript''"
    by (auto simp: compiled_language_def registered_iff)
  from False assms(3) show ?thesis
    unfolding exec_interpreted [OF l assms(2) cl]
    by (cases "write_text env"; cases "run_spawn env"; cases "run_wait env")
       (auto simp: raises_only_Exception_def run_result_eq converted_error_result
          run_phase_reached_def split: prod.splits)
next
  case True
  then have l: "language = lit ''java'' \<or> language = lit ''cpp''"
    by (simp add: compiled_language_def)
  note early = exec_compiled_early [OF l assms(2) cl, where w = w and src = source_code
      and stdin = stdin and t = t]
  show ?thesis
  proof (cases "write_text env")
    case (Some e)
    with assms(3) have "is_Exception e" by (simp add: raises_only_Exception_def)
    with early(1) [OF Some] Some show ?thesis
      by (simp add: converted_error_result run_phase_reached_def)
  next
    case None
    note wt = None
    show ?thesis
    proof (cases "compile_spawn env")
      case (Some e)
      with assms(3) have "is_Exception e" by (simp add: raises_only_Exception_def)
      with early(2) [OF wt Some] wt Some True show ?thesis
        by (simp add: converted_error_result run_phase_reached_def compile_succeeds_def)
    next
      case None
      note cs = None
      show ?thesis
      proof (cases "compile_wait env")
        case Hangs
        with True assms(4) show ?thesis by simp
      next
        case (Raises e)
        with assms(3) have "is_Exception e" by (simp add: raises_only_Exception_def)
        with early(3) [OF wt cs Raises] wt cs Raises True show ?thesis
          by (simp add: converted_error_result run_phase_reached_def compile_succeeds_def)
      next
        case (Returns x)
        obtain co ce crc where x: "x = (co, ce, crc)" by (cases x)
        show ?thesis
        proof (cases "crc = 0")
          case False
          from exec_compile_failure(1) [OF True assms(2) wt cs Returns [unfolded x] False cl,
              of w source_code stdin t]
            wt cs Returns x False True
          show ?thesis
            by (simp add: run_phase_reached_def compile_succeeds_def)
        next
          case z: True
          show ?thesis
          proof (cases "run_spawn env")
            case (Some e)
            with assms(3) have "is_Exception e" by (simp add: raises_only_Exception_def)
            with early(5) [OF wt cs Returns [unfolded x z] Some] wt cs Returns x z Some True
            show ?thesis
              by (simp add: converted_error_result run_phase_reached_def compile_succeeds_def)
          next
            case None
            with wt cs Returns x z assms(1,2) have rp: "run_phase_reached env language"
              by (simp add: run_phase_reached_def compile_succeeds_def)
            from assms(3) have "\<And>e. run_wait env = Inl e \<Longrightarrow> is_Exception e"
              by (simp add: raises_only_Exception_def)
            with exec_run_phase [OF rp cl, of w source_code stdin t] wt cs None True Returns rp
            show ?thesis
              by (cases "run_wait env")
                 (auto simp: run_result_eq converted_error_result split: prod.splits)
          qed
        qed
      qed
    qed
  qed
qed

theorem execute_code_absorbs_failures_witness:
  "registered (lit ''javascript'')
   \<and> raises_only_Exception (env0\<lparr>run_spawn := Some (Exn OSError (lit ''No such file: node''))\<rparr>)
   \<and> (\<exists>r. fst (execute_code (env0\<lparr>run_spawn := Some (Exn OSError (lit ''No such file: node''))\<rparr>)
                 world0 (lit ''javascript'') (lit ''console.log(1)'') [] (Some 5)) = Returns r
          \<and> status r = lit ''Runtime Error'' \<and> stderr r = lit ''No such file: node''
          \<and> stdout r = [] \<and> exit_code r = 1)"
  using execute_code_absorbs_failures
    [of "lit ''javascript''" "env0\<lparr>run_spawn := Some (Exn OSError (lit ''No such file: node''))\<rparr>"
        "lit ''/tmp/tmpk3x9''" world0 "lit ''console.log(1)''" "[]" 5]
  by (auto simp: cond_defs raises_only_Exception_def is_Exception_def converted_def)

subsection \<open>The default timeout\<close>

text \<open>
  Claim C2. The claim says that a call without \<^verbatim>\<open>timeout\<close> runs the program with the
  language's default of 30 seconds. The code reads the default with
  \<^verbatim>\<open>config["default_timeout"]\<close>, but the table stores it under \<^verbatim>\<open>"timeout"\<close> (the key
  that \<^verbatim>\<open>get_supported_languages\<close> reads). So for Python, as for every registered
  language, the call raises \<^verbatim>\<open>KeyError\<close> before a workspace is made, and no program runs.
\<close>

theorem execute_code_omitted_timeout_raises:
  "execute_code env w (lit ''python'') source_code stdin None =
     (Raises (Exn KeyError (lit [CHR 0x27] @ lit ''default_timeout'' @ lit [CHR 0x27])), w)"
  by (simp add: execute_code_def languages_def getitem_def quoted_def) (simp add: lit_def)

subsection \<open>Unregistered languages\<close>

text \<open>
  Claim C3. A request whose language id has no entry in the table fails the call with
  the caller error \<^verbatim>\<open>ValueError("Unsupported language: ...")\<close>, not with a result, and the
  world is left as it was: no directory is made and no call to the operating system is
  recorded, so the rejection comes before any side effect on the file system.
\<close>

theorem execute_code_unsupported_language:
  assumes "\<not> registered language"
  shows "execute_code env w language source_code stdin tmo_arg =
           (Raises (Exn ValueError (lit ''Unsupported language: '' @ language)), w)"
  using assms by (simp add: execute_code_def registered_def)

theorem execute_code_unsupported_language_witness:
  "\<not> registered (lit ''ruby'') \<and>
   execute_code env0 world0 (lit ''ruby'') (lit ''puts 1'') [] (Some 5) =
     (Raises (Exn ValueError (lit ''Unsupported language: ruby'')), world0)"
  using execute_code_unsupported_language [of "lit ''ruby''" env0 world0 "lit ''puts 1''" "[]" "Some 5"]
  by (simp add: registered_iff) (simp add: lit_def)

subsection \<open>Failed compilation\<close>

text \<open>
  Claim C4. For Java and C++, when the compiler was started and exits with a non-zero code
  (and the workspace is removed without error, so that a result is delivered), the call
  returns a result with status \<^verbatim>\<open>"Compilation Error"\<close>, the compiler's error
  output (decoded) as \<^verbatim>\<open>stderr\<close>, the compiler's exit code as \<^verbatim>\<open>exit_code\<close> and an empty
  \<^verbatim>\<open>stdout\<close>; and the invocation never spawns the program.
\<close>

theorem compile_failure_result:
  assumes "compiled_language language"
    and "mkdtemp env = Inr d" and "write_text env = None" and "compile_spawn env = None"
    and "compile_wait env = Returns (co, ce, rc)" and "rc \<noteq> 0"
    and "cleanup env = None"
  shows "\<exists>r. fst (execute_code env w language source_code stdin (Some t)) = Returns r
           \<and> status r = lit ''Compilation Error''
           \<and> utf8_decode Ignore ce = Inr (stderr r)
           \<and> exit_code r = rc
           \<and> stdout r = []
           \<and> (\<forall>argv cwd. Spawn Runner argv cwd \<notin>
                 set (drop (length (trace w))
                        (trace (snd (execute_code env w language source_code stdin (Some t))))))"
  using exec_compile_failure [OF assms] by (simp add: utf8_decode_Ignore)

theorem compile_failure_result_witness:
  "compiled_language (lit ''cpp'')
   \<and> mkdtemp (env0\<lparr>compile_wait := Returns ([], blit ''error: expected }'', 1)\<rparr>)
       = Inr (lit ''/tmp/tmpk3x9'')
   \<and> (\<exists>r. fst (execute_code (env0\<lparr>compile_wait := Returns ([], blit ''error: expected }'', 1)\<rparr>)
                 world0 (lit ''cpp'') (lit ''int main() {'') [] (Some 5)) = Returns r
          \<and> status r = lit ''Compilation Error''
          \<and> stderr r = lit ''error: expected }''
          \<and> exit_code r = 1
          \<and> stdout r = [])"
  using compile_failure_result
    [of "lit ''cpp''" "env0\<lparr>compile_wait := Returns ([], blit ''error: expected }'', 1)\<rparr>"
        "lit ''/tmp/tmpk3x9''" "[]" "blit ''error: expected }''" 1
        world0 "lit ''int main() {''" "[]" 5]
  by (auto simp: compiled_language_def env0_def) (simp_all add: blit_def lit_def)

subsection \<open>The status of a run\<close>

text \<open>
  Claim C5. When the run phase is reached (and the workspace is removed without error, so
  that a result is delivered), the status follows from the run alone: a
  program that ends by itself gives \<^verbatim>\<open>"Runtime Error"\<close> for a non-zero return code and
  \<^verbatim>\<open>"Accepted"\<close> for zero, with \<^verbatim>\<open>exit_code\<close> equal to the return code; a run that
  hits the timeout gives \<^verbatim>\<open>"Time Limit Exceeded"\<close>; and every result that comes back
  satisfies the rule: timed out, else non-zero exit code, else accepted.
\<close>

theorem run_status_derivation:
  assumes "run_phase_reached env language" and "cleanup env = None"
  shows "(\<forall>out err rc. run_wait env = Inr (out, err, rc) \<longrightarrow>
            (\<exists>r. fst (execute_code env w language source_code stdin (Some t)) = Returns r
                 \<and> \<not> timeout r \<and> exit_code r = rc
                 \<and> status r = (if rc \<noteq> 0 then lit ''Runtime Error'' else lit ''Accepted'')))
       \<and> (\<forall>e. run_wait env = Inl e \<and> exn_cls e = TimeoutError \<longrightarrow>
            (\<exists>r. fst (execute_code env w language source_code stdin (Some t)) = Returns r
                 \<and> timeout r \<and> status r = lit ''Time Limit Exceeded''))
       \<and> (\<forall>r. fst (execute_code env w language source_code stdin (Some t)) = Returns r \<longrightarrow>
            status r = (if timeout r then lit ''Time Limit Exceeded''
                        else if exit_code r \<noteq> 0 then lit ''Runtime Error''
                        else lit ''Accepted''))"
  using exec_run_phase [OF assms, of w source_code stdin t]
  by (auto simp: run_result_eq error_result_def split: sum.splits if_splits)

theorem run_status_derivation_witness:
  "run_phase_reached (env0\<lparr>run_wait := Inr ([], [], 3)\<rparr>) (lit ''python'')
   \<and> (\<exists>r. fst (execute_code (env0\<lparr>run_wait := Inr ([], [], 3)\<rparr>) world0 (lit ''python'')
                 (lit ''import sys; sys.exit(3)'') [] (Some 5)) = Returns r
          \<and> \<not> timeout r \<and> exit_code r = 3 \<and> status r = lit ''Runtime Error'')"
  using run_status_derivation
    [of "env0\<lparr>run_wait := Inr ([], [], 3)\<rparr>" "lit ''python''" world0
        "lit ''import sys; sys.exit(3)''" "[]" 5]
  by (auto simp: cond_defs)

subsection \<open>The timeout\<close>



subsection \<open>Decoding the captured output\<close>

text \<open>
  Claim C7 says that an invalid byte sequence in the captured output is replaced by a
  replacement character. The code decodes with \<^verbatim>\<open>errors='ignore'\<close>: the invalid byte
  is dropped and nothing is put in its place. The program below prints the bytes
  \<^verbatim>\<open>41 FF 42\<close>; decoding with \<^verbatim>\<open>errors='replace'\<close> would give \<^verbatim>\<open>A\<close>, U+FFFD,
  \<^verbatim>\<open>B\<close>, and the result holds \<^verbatim>\<open>AB\<close>.
\<close>

theorem invalid_bytes_not_replaced:
  "run_phase_reached (env0\<lparr>run_wait := Inr ([0x41, 0xFF, 0x42], [], 0)\<rparr>) (lit ''python'')
   \<and> utf8_decode Replace [0x41, 0xFF, 0x42] = Inr [0x41, 0xFFFD, 0x42]
   \<and> fst (execute_code (env0\<lparr>run_wait := Inr ([0x41, 0xFF, 0x42], [], 0)\<rparr>) world0
            (lit ''python'') (lit ''print(1)'') [] (Some 5))
       = Returns \<lparr>stdout = [0x41, 0x42], stderr = [], exit_code = 0, execution_time_ms = 39,
                  memory_usage_mb = None, status = lit ''Accepted'', timeout = False\<rparr>"
  by (simp add: cond_defs exec_defs Let_def run_result_def strip_def isspace_def)

text \<open>
  Claim C7, as the code has it. When the program ends by itself (and the workspace is
  removed without error, so that a result is delivered), decoding its output and
  its error output never fails, whatever the bytes are: the result holds the two texts
  decoded with \<^verbatim>\<open>errors='ignore'\<close> and trimmed. Well-formed UTF-8 is decoded as strict
  decoding would; an ill-formed sequence is dropped, so the decoded text differs from the
  one \<^verbatim>\<open>errors='replace'\<close> gives only in replacement characters.
\<close>

theorem decoding_drops_invalid_bytes:
  assumes "run_phase_reached env language" and "run_wait env = Inr (out, err, rc)"
    and cl: "cleanup env = None"
  shows "\<exists>r so se. fst (execute_code env w language source_code stdin (Some t)) = Returns r
           \<and> utf8_decode Ignore out = Inr so \<and> stdout r = strip so
           \<and> utf8_decode Ignore err = Inr se \<and> stderr r = strip se
           \<and> (\<forall>s. utf8_decode Strict out = Inr s \<longrightarrow> so = s)
           \<and> (\<forall>s. utf8_decode Strict err = Inr s \<longrightarrow> se = s)
           \<and> (\<forall>s. utf8_decode Replace out = Inr s \<longrightarrow>
                  filter (\<lambda>c. c \<noteq> 0xFFFD) so = filter (\<lambda>c. c \<noteq> 0xFFFD) s)
           \<and> (\<forall>s. utf8_decode Replace err = Inr s \<longrightarrow>
                  filter (\<lambda>c. c \<noteq> 0xFFFD) se = filter (\<lambda>c. c \<noteq> 0xFFFD) s)"
proof -
  have 1: "\<forall>s. utf8_decode Strict bs = Inr s \<longrightarrow> decoded bs = s" for bs
    using strict_agrees [of bs _ Ignore] by (simp add: utf8_decode_Ignore)
  have 2: "\<forall>s. utf8_decode Replace bs = Inr s \<longrightarrow>
             filter (\<lambda>c. c \<noteq> 0xFFFD) (decoded bs) = filter (\<lambda>c. c \<noteq> 0xFFFD) s" for bs
    using ignore_replace [of bs] by simp
  from exec_run_phase [OF assms(1) cl, of w source_code stdin t] assms(2)
  have "fst (execute_code env w language source_code stdin (Some t)) =
          Returns \<lparr>stdout = strip (decoded out), stderr = strip (decoded err),
              exit_code = rc, execution_time_ms = t_end env - t_start env,
              memory_usage_mb = None,
              status = (if rc \<noteq> 0 then lit ''Runtime Error'' else lit ''Accepted''),
              timeout = False\<rparr>"
    by (simp add: run_result_eq)
  with 1 [of out] 1 [of err] 2 [of out] 2 [of err] show ?thesis
    by (simp add: utf8_decode_Ignore)
qed

theorem decoding_drops_invalid_bytes_witness:
  "run_phase_reached (env0\<lparr>run_wait := Inr ([0x41, 0xFF, 0x42], [], 0)\<rparr>) (lit ''python'')
   \<and> (\<exists>r. fst (execute_code (env0\<lparr>run_wait := Inr ([0x41, 0xFF, 0x42], [], 0)\<rparr>) world0
                 (lit ''python'') (lit ''print(1)'') [] (Some 5)) = Returns r
          \<and> stdout r = [0x41, 0x42] \<and> stderr r = [])"
  using decoding_drops_invalid_bytes
    [of "env0\<lparr>run_wait := Inr ([0x41, 0xFF, 0x42], [], 0)\<rparr>" "lit ''python''"
        "[0x41, 0xFF, 0x42]" "[]" 0 world0 "lit ''print(1)''" "[]" 5]
  by (auto simp: cond_defs strip_def isspace_def)

subsection \<open>Trimming the captured output\<close>

text \<open>
  Claim C8 says that \<^verbatim>\<open>stdout\<close> and \<^verbatim>\<open>stderr\<close> are trimmed in every result, the
  results of a failed compilation included. Both compile branches pass the compiler's
  error output on as it is, without \<^verbatim>\<open>strip()\<close>: a compiler message that ends with a
  line feed keeps it.
\<close>

theorem compile_error_stderr_not_trimmed:
  "fst (execute_code (env0\<lparr>compile_wait := Returns ([], blit ''error'' @ [0x0A], 1)\<rparr>) world0
          (lit ''java'') (lit ''class Solution {'') [] (Some 5))
     = Returns \<lparr>stdout = [], stderr = lit ''error'' @ [0x0A], exit_code = 1,
                execution_time_ms = 39, memory_usage_mb = None,
                status = lit ''Compilation Error'', timeout = False\<rparr>
   \<and> strip (lit ''error'' @ [0x0A]) \<noteq> lit ''error'' @ [0x0A]
   \<and> \<not> trimmed (lit ''error'' @ [0x0A])"
  by (simp add: env0_def exec_defs Let_def compile_error_result_def strip_def isspace_def
        trimmed_def blit_def lit_def)

text \<open>
  Claim C8, as the code has it. When the run phase is reached, the program ends by
  itself or runs into the timeout, and the workspace is removed without error,
  \<^verbatim>\<open>stdout\<close> and \<^verbatim>\<open>stderr\<close> of the result are
  trimmed: neither starts or ends with white space, and \<^verbatim>\<open>strip\<close> leaves them as
  they are.
\<close>

theorem run_output_trimmed:
  assumes "run_phase_reached env language"
    and "run_wait env = Inr (out, err, rc) \<or> (\<exists>e. run_wait env = Inl e \<and> exn_cls e = TimeoutError)"
    and cl: "cleanup env = None"
  shows "\<exists>r. fst (execute_code env w language source_code stdin (Some t)) = Returns r
           \<and> trimmed (stdout r) \<and> trimmed (stderr r)
           \<and> strip (stdout r) = stdout r \<and> strip (stderr r) = stderr r"
  using exec_run_phase [OF assms(1) cl, of w source_code stdin t] assms(2)
  by (auto simp: run_result_eq trimmed_strip strip_trimmed)

theorem run_output_trimmed_witness:
  "run_phase_reached env0 (lit ''cpp'')
   \<and> (\<exists>r. fst (execute_code env0 world0 (lit ''cpp'') (lit ''int main() {}'') [] (Some 5))
            = Returns r
          \<and> stdout r = lit ''hello'' \<and> trimmed (stdout r) \<and> trimmed (stderr r))"
proof -
  have rp: "run_phase_reached env0 (lit ''cpp'')" by (simp add: cond_defs)
  have rw: "run_wait env0 = Inr (blit ''hello'' @ [0x0A], [], 0)
              \<or> (\<exists>e. run_wait env0 = Inl e \<and> exn_cls e = TimeoutError)"
    by (simp add: env0_def)
  have cl: "cleanup env0 = None" by (simp add: env0_def)
  have "fst (execute_code env0 world0 (lit ''cpp'') (lit ''int main() {}'') [] (Some 5))
          = Returns \<lparr>stdout = lit ''hello'', stderr = [], exit_code = 0, execution_time_ms = 39,
                  memory_usage_mb = None, status = lit ''Accepted'', timeout = False\<rparr>"
    by (simp add: env0_def exec_defs Let_def run_result_def strip_def isspace_def blit_def lit_def)
  with rp run_output_trimmed [OF rp rw cl, of world0 "lit ''int main() {}''" "[]" 5]
  show ?thesis by auto
qed

subsection \<open>The workspace\<close>




subsection \<open>The dispatch on the language\<close>

text \<open>
  Claim C10. Every language id that passes the registry check of \<^verbatim>\<open>execute_code\<close> has its
  own branch in \<^verbatim>\<open>_execute_in_temp_dir\<close>, so the last branch, which raises
  \<^verbatim>\<open>"Language ... not implemented"\<close>, is not taken for a registered language. The id
  \<^verbatim>\<open>"c"\<close> has a branch but no entry in the table, and of the registered ids only
  \<^verbatim>\<open>"cpp"\<close> takes that branch.
\<close>

theorem dispatch_covers_registered:
  assumes "registered language"
  shows "select_branch language \<noteq> NotImplemented
         \<and> select_branch (lit ''c'') = RunCompiled \<and> \<not> registered (lit ''c'')
         \<and> (select_branch language = RunCompiled \<longrightarrow> language = lit ''cpp'')"
  using assms by (auto simp: registered_iff select_branch_def)

theorem dispatch_covers_registered_witness:
  "registered (lit ''javascript'') \<and> select_branch (lit ''javascript'') = RunJavascript
   \<and> select_branch (lit ''javascript'') \<noteq> NotImplemented"
  using dispatch_covers_registered [of "lit ''javascript''"]
  by (simp add: registered_iff select_branch_def)

end
